theory Spec2Isabelle
  imports Main "HOL-Library.Word" "HOL-Library.Sublist" "HOL-Library.Multiset"
begin

unbundle bit_operations_syntax

section \<open>The relational store behind the LawChain endpoints\<close>

text \<open>
  Both entry points (\<^verbatim>\<open>main.py\<close> and \<^verbatim>\<open>app.py\<close>) talk to the same Oracle schema
  (the same \<^verbatim>\<open>DB_CONFIG\<close>), created by \<^verbatim>\<open>init_database\<close>. A table is the list of
  its rows in insertion order. Every column except the identity primary keys is
  nullable, so a column holds an \<open>option\<close>; \<open>None\<close> is SQL NULL.
  Timestamps are points on a discrete clock.
\<close>

type_synonym timestamp = nat

record case_row =
  case_id :: int
  case_title :: "string option"
  client_name :: "string option"
  client_email :: "string option"
  client_address :: "string option"
  lawyer_name :: "string option"
  lawyer_email :: "string option"
  case_type :: "string option"
  description :: "string option"
  client_wallet :: "string option"
  lawyer_wallet :: "string option"
  blockchain_tx :: "string option"
  status :: "string option"
  created_at :: "timestamp option"

text \<open>Columns of \<^verbatim>\<open>documents\<close>; \<open>doc_case_id\<close> and \<open>doc_blockchain_tx\<close> are the
  columns \<^verbatim>\<open>case_id\<close> and \<^verbatim>\<open>blockchain_tx\<close> of that table.\<close>

record document_row =
  doc_id :: int
  doc_case_id :: "int option"
  document_name :: "string option"
  document_hash :: "string option"
  document_type :: "string option"
  uploaded_by :: "string option"
  doc_blockchain_tx :: "string option"
  uploaded_at :: "timestamp option"

text \<open>Columns of \<^verbatim>\<open>hearings\<close> (created by \<^verbatim>\<open>main.py\<close> only); \<open>hearing_case_id\<close> and
  \<open>hearing_created_at\<close> are its columns \<^verbatim>\<open>case_id\<close>, \<^verbatim>\<open>created_at\<close>; \<open>hearing_notes\<close> is \<^verbatim>\<open>notes\<close>.\<close>

record hearing_row =
  hearing_id :: int
  hearing_case_id :: "int option"
  hearing_date :: "nat option"
  hearing_time :: "string option"
  court_name :: "string option"
  hearing_notes :: "string option"
  hearing_created_at :: "timestamp option"

text \<open>
  The three tables and the three identity generators
  (\<^verbatim>\<open>GENERATED ALWAYS AS IDENTITY\<close>: the next value each one hands out).
\<close>

record store =
  cases :: "case_row list"
  documents :: "document_row list"
  hearings :: "hearing_row list"
  cases_identity :: int
  documents_identity :: int
  hearings_identity :: int

subsection \<open>The driver: connections, faults, transactions\<close>

text \<open>
  \<^verbatim>\<open>HTTPException(status_code, detail)\<close> is the only error an endpoint surfaces.
\<close>

datatype http_error = HTTPException (status_code: nat) (detail: string)

text \<open>
  What the surroundings decide for one request: whether \<^verbatim>\<open>oracledb.connect\<close>
  raises (and with which text), whether the k-th \<^verbatim>\<open>cursor.execute\<close> of the request
  raises a driver error that does not come from the data (lost connection, a value
  wider than its \<^verbatim>\<open>VARCHAR2\<close> column, ...), the value of \<^verbatim>\<open>CURRENT_TIMESTAMP\<close>, and how
  the web framework renders an \<^verbatim>\<open>HTTPException\<close> under \<^verbatim>\<open>str()\<close>. The UNIQUE and FOREIGN KEY
  constraints of the schema are not faults: they are decided on the rows, below.
\<close>

record env =
  connect_error :: "string option"
  execute_error :: "nat \<Rightarrow> string option"
  current_timestamp :: timestamp
  str_HTTPException :: "http_error \<Rightarrow> string"

text \<open>
  A connection sees the store as of its last commit and its own uncommitted changes.
\<close>

record connection =
  snapshot :: store
  current :: store

definition get_db_connection :: "env \<Rightarrow> store \<Rightarrow> http_error + connection" where
  "get_db_connection e s =
     (case connect_error e of
        Some msg \<Rightarrow> Inl (HTTPException 500 (''Database connection failed: '' @ msg))
      | None \<Rightarrow> Inr \<lparr>snapshot = s, current = s\<rparr>)"

text \<open>
  \<^verbatim>\<open>cursor.execute\<close>: a statement is a function on the store that yields what the
  cursor then holds (fetched rows, a row count, an out-bind value) or raises a
  constraint violation, together with the store it leaves. A statement that raises
  changes no row (statement-level atomicity).
\<close>

type_synonym 'a statement = "store \<Rightarrow> (string + 'a) \<times> store"

definition execute ::
  "env \<Rightarrow> nat \<Rightarrow> 'a statement \<Rightarrow> connection \<Rightarrow> (string + 'a) \<times> connection" where
  "execute e k stmt c =
     (case execute_error e k of
        Some msg \<Rightarrow> (Inl msg, c)
      | None \<Rightarrow> (case stmt (current c) of (r, s') \<Rightarrow> (r, c\<lparr>current := s'\<rparr>)))"

definition commit :: "connection \<Rightarrow> connection" where
  "commit c = c\<lparr>snapshot := current c\<rparr>"

text \<open>A rollback restores the rows; identity generators are never rolled back.\<close>

definition rollback :: "connection \<Rightarrow> connection" where
  "rollback c =
     c\<lparr>current := (snapshot c)\<lparr>cases_identity := cases_identity (current c),
                                documents_identity := documents_identity (current c),
                                hearings_identity := hearings_identity (current c)\<rparr>\<rparr>"

text \<open>\<^verbatim>\<open>conn.close()\<close> discards what was not committed; the store that remains.\<close>

definition close :: "connection \<Rightarrow> store" where
  "close c = current (rollback c)"

text \<open>
  Binding a Python \<^verbatim>\<open>str\<close> to a \<^verbatim>\<open>VARCHAR2\<close> or \<^verbatim>\<open>CLOB\<close> column: Oracle stores the
  empty string as NULL.
\<close>

definition bind_str :: "string \<Rightarrow> string option" where
  "bind_str v = (if v = [] then None else Some v)"

subsection \<open>The DELETE statements\<close>

text \<open>\<^verbatim>\<open>DELETE FROM hearings WHERE case_id = :1\<close>; the cursor holds the row count.\<close>

definition delete_from_hearings :: "int \<Rightarrow> nat statement" where
  "delete_from_hearings cid s =
     (Inr (length (filter (\<lambda>h. hearing_case_id h = Some cid) (hearings s))),
      s\<lparr>hearings := filter (\<lambda>h. hearing_case_id h \<noteq> Some cid) (hearings s)\<rparr>)"

text \<open>\<^verbatim>\<open>DELETE FROM documents WHERE case_id = :1\<close>\<close>

definition delete_from_documents :: "int \<Rightarrow> nat statement" where
  "delete_from_documents cid s =
     (Inr (length (filter (\<lambda>d. doc_case_id d = Some cid) (documents s))),
      s\<lparr>documents := filter (\<lambda>d. doc_case_id d \<noteq> Some cid) (documents s)\<rparr>)"

text \<open>
  \<^verbatim>\<open>DELETE FROM cases WHERE case_id = :1\<close>. The foreign keys \<^verbatim>\<open>fk_case_docs\<close> and
  \<^verbatim>\<open>fk_case_hearings\<close> have no \<^verbatim>\<open>ON DELETE\<close> clause: removing a case row that a
  document or hearing row still references raises.
\<close>

definition referenced :: "store \<Rightarrow> int \<Rightarrow> bool" where
  "referenced s cid =
     (list_ex (\<lambda>d. doc_case_id d = Some cid) (documents s) \<or>
      list_ex (\<lambda>h. hearing_case_id h = Some cid) (hearings s))"

definition delete_from_cases :: "int \<Rightarrow> nat statement" where
  "delete_from_cases cid s =
     (if list_ex (\<lambda>c. case_id c = cid) (cases s) \<and> referenced s cid
      then (Inl ''ORA-02292: integrity constraint violated - child record found'', s)
      else (Inr (length (filter (\<lambda>c. case_id c = cid) (cases s))),
            s\<lparr>cases := filter (\<lambda>c. case_id c \<noteq> cid) (cases s)\<rparr>))"

subsection \<open>Cascade delete of a case\<close>

record ok_response =
  success :: bool
  message :: string

text \<open>
  \<^verbatim>\<open>delete_case\<close> of \<^verbatim>\<open>main.py\<close>. A failed \<^verbatim>\<open>get_db_connection\<close> is caught by the same
  \<^verbatim>\<open>except Exception\<close> with \<^verbatim>\<open>conn\<close> still \<^verbatim>\<open>None\<close>: no rollback, and the detail is
  \<^verbatim>\<open>str\<close> of the caught \<^verbatim>\<open>HTTPException\<close>. The result is the response or the error, and
  the store the request leaves behind.
\<close>

definition delete_case :: "env \<Rightarrow> store \<Rightarrow> int \<Rightarrow> (http_error + ok_response) \<times> store" where
  "delete_case e s cid =
     (case get_db_connection e s of
        Inl err \<Rightarrow> (Inl (HTTPException 500 (str_HTTPException e err)), s)
      | Inr conn \<Rightarrow>
     (case execute e 0 (delete_from_hearings cid) conn of
        (Inl msg, conn1) \<Rightarrow> (Inl (HTTPException 500 msg), close (rollback conn1))
      | (Inr _, conn1) \<Rightarrow>
     (case execute e 1 (delete_from_documents cid) conn1 of
        (Inl msg, conn2) \<Rightarrow> (Inl (HTTPException 500 msg), close (rollback conn2))
      | (Inr _, conn2) \<Rightarrow>
     (case execute e 2 (delete_from_cases cid) conn2 of
        (Inl msg, conn3) \<Rightarrow> (Inl (HTTPException 500 msg), close (rollback conn3))
      | (Inr _, conn3) \<Rightarrow>
          (Inr \<lparr>success = True, message = ''Case deleted successfully''\<rparr>,
           close (commit conn3))))))"

text \<open>\<^verbatim>\<open>delete_case\<close> of \<^verbatim>\<open>app.py\<close>: the same unit without the hearings statement.\<close>

definition app_delete_case :: "env \<Rightarrow> store \<Rightarrow> int \<Rightarrow> (http_error + ok_response) \<times> store" where
  "app_delete_case e s cid =
     (case get_db_connection e s of
        Inl err \<Rightarrow> (Inl (HTTPException 500 (str_HTTPException e err)), s)
      | Inr conn \<Rightarrow>
     (case execute e 0 (delete_from_documents cid) conn of
        (Inl msg, conn1) \<Rightarrow> (Inl (HTTPException 500 msg), close (rollback conn1))
      | (Inr _, conn1) \<Rightarrow>
     (case execute e 1 (delete_from_cases cid) conn1 of
        (Inl msg, conn2) \<Rightarrow> (Inl (HTTPException 500 msg), close (rollback conn2))
      | (Inr _, conn2) \<Rightarrow>
          (Inr \<lparr>success = True, message = ''Case deleted successfully''\<rparr>,
           close (commit conn2)))))"

subsection \<open>Creating, fetching and updating a case\<close>

text \<open>The request body \<^verbatim>\<open>CaseUpdate\<close>; its fields carry the prefix \<open>upd_\<close>.\<close>

record CaseUpdate =
  upd_case_title :: string
  upd_client_name :: string
  upd_client_email :: string
  upd_client_address :: string
  upd_lawyer_name :: string
  upd_lawyer_email :: string
  upd_case_type :: string
  upd_description :: string

text \<open>The request body \<^verbatim>\<open>CaseCreate\<close>; its fields carry the prefix \<open>new_\<close>.\<close>

record CaseCreate =
  new_case_title :: string
  new_client_name :: string
  new_client_email :: string
  new_client_address :: string
  new_lawyer_name :: string
  new_lawyer_email :: string
  new_case_type :: string
  new_description :: string
  new_client_wallet :: string
  new_lawyer_wallet :: string

text \<open>
  \<^verbatim>\<open>INSERT INTO cases (case_title, ..., lawyer_wallet) VALUES (:1, ..., :10) RETURNING
  case_id INTO :11\<close>. The columns the statement does not name take their defaults:
  \<^verbatim>\<open>case_id\<close> the next identity value, \<^verbatim>\<open>status\<close> \<^verbatim>\<open>'Active'\<close>, \<^verbatim>\<open>created_at\<close>
  \<^verbatim>\<open>CURRENT_TIMESTAMP\<close>, \<^verbatim>\<open>blockchain_tx\<close> NULL. The cursor holds the new \<^verbatim>\<open>case_id\<close>.
\<close>

definition insert_into_cases :: "env \<Rightarrow> CaseCreate \<Rightarrow> int statement" where
  "insert_into_cases e c s =
     (let row = \<lparr>case_id = cases_identity s,
                 case_title = bind_str (new_case_title c),
                 client_name = bind_str (new_client_name c),
                 client_email = bind_str (new_client_email c),
                 client_address = bind_str (new_client_address c),
                 lawyer_name = bind_str (new_lawyer_name c),
                 lawyer_email = bind_str (new_lawyer_email c),
                 case_type = bind_str (new_case_type c),
                 description = bind_str (new_description c),
                 client_wallet = bind_str (new_client_wallet c),
                 lawyer_wallet = bind_str (new_lawyer_wallet c),
                 blockchain_tx = None,
                 status = Some ''Active'',
                 created_at = Some (current_timestamp e)\<rparr>
      in (Inr (cases_identity s),
          s\<lparr>cases := cases s @ [row], cases_identity := cases_identity s + 1\<rparr>))"

record created_response = ok_response +
  resp_case_id :: int

text \<open>\<^verbatim>\<open>create_case\<close> (the same text in both entry points).\<close>

definition create_case ::
  "env \<Rightarrow> store \<Rightarrow> CaseCreate \<Rightarrow> (http_error + created_response) \<times> store" where
  "create_case e s c =
     (case get_db_connection e s of
        Inl err \<Rightarrow> (Inl (HTTPException 500 (''Error: '' @ str_HTTPException e err)), s)
      | Inr conn \<Rightarrow>
     (case execute e 0 (insert_into_cases e c) conn of
        (Inl msg, conn1) \<Rightarrow> (Inl (HTTPException 500 (''Error: '' @ msg)), close (rollback conn1))
      | (Inr cid, conn1) \<Rightarrow>
          (Inr \<lparr>success = True, message = ''Case created successfully'', resp_case_id = cid\<rparr>,
           close (commit conn1))))"

text \<open>\<^verbatim>\<open>SELECT * FROM cases WHERE case_id = :1\<close> followed by \<^verbatim>\<open>fetchone()\<close>.\<close>

definition select_case :: "int \<Rightarrow> case_row option statement" where
  "select_case cid s = (Inr (find (\<lambda>c. case_id c = cid) (cases s)), s)"

text \<open>
  \<^verbatim>\<open>get_case\<close> of \<^verbatim>\<open>main.py\<close>. The dictionary it returns has one entry per column, in
  column order, \<^verbatim>\<open>created_at\<close> rendered by \<^verbatim>\<open>isoformat()\<close>: it is the row. An
  \<^verbatim>\<open>HTTPException\<close> raised inside the \<^verbatim>\<open>try\<close> (by \<^verbatim>\<open>get_db_connection\<close> or by the
  missing-row check) is re-raised as it is. The request writes nothing and never
  commits, so only the result is returned.
\<close>

definition get_case :: "env \<Rightarrow> store \<Rightarrow> int \<Rightarrow> http_error + case_row" where
  "get_case e s cid =
     (case get_db_connection e s of
        Inl err \<Rightarrow> Inl err
      | Inr conn \<Rightarrow>
     (case execute e 0 (select_case cid) conn of
        (Inl msg, conn1) \<Rightarrow> Inl (HTTPException 500 msg)
      | (Inr row, conn1) \<Rightarrow>
          (case row of
             None \<Rightarrow> Inl (HTTPException 404 ''Case not found'')
           | Some r \<Rightarrow> Inr r)))"

text \<open>\<^verbatim>\<open>get_case\<close> of \<^verbatim>\<open>app.py\<close>: the same text.\<close>

definition app_get_case :: "env \<Rightarrow> store \<Rightarrow> int \<Rightarrow> http_error + case_row" where
  "app_get_case e s cid =
     (case get_db_connection e s of
        Inl err \<Rightarrow> Inl err
      | Inr conn \<Rightarrow>
     (case execute e 0 (select_case cid) conn of
        (Inl msg, conn1) \<Rightarrow> Inl (HTTPException 500 msg)
      | (Inr row, conn1) \<Rightarrow>
          (case row of
             None \<Rightarrow> Inl (HTTPException 404 ''Case not found'')
           | Some r \<Rightarrow> Inr r)))"

text \<open>
  \<^verbatim>\<open>UPDATE cases SET case_title = :1, ..., description = :8 WHERE case_id = :9\<close>;
  the cursor holds the number of rows updated.
\<close>

definition set_case_fields :: "CaseUpdate \<Rightarrow> case_row \<Rightarrow> case_row" where
  "set_case_fields u r =
     r\<lparr>case_title := bind_str (upd_case_title u),
       client_name := bind_str (upd_client_name u),
       client_email := bind_str (upd_client_email u),
       client_address := bind_str (upd_client_address u),
       lawyer_name := bind_str (upd_lawyer_name u),
       lawyer_email := bind_str (upd_lawyer_email u),
       case_type := bind_str (upd_case_type u),
       description := bind_str (upd_description u)\<rparr>"

definition update_cases_set_fields :: "CaseUpdate \<Rightarrow> int \<Rightarrow> nat statement" where
  "update_cases_set_fields u cid s =
     (Inr (length (filter (\<lambda>c. case_id c = cid) (cases s))),
      s\<lparr>cases := map (\<lambda>c. if case_id c = cid then set_case_fields u c else c) (cases s)\<rparr>)"

text \<open>\<^verbatim>\<open>update_case\<close> (\<^verbatim>\<open>main.py\<close> only): the row count of the cursor is not read.\<close>

definition update_case ::
  "env \<Rightarrow> store \<Rightarrow> int \<Rightarrow> CaseUpdate \<Rightarrow> (http_error + ok_response) \<times> store" where
  "update_case e s cid u =
     (case get_db_connection e s of
        Inl err \<Rightarrow> (Inl (HTTPException 500 (str_HTTPException e err)), s)
      | Inr conn \<Rightarrow>
     (case execute e 0 (update_cases_set_fields u cid) conn of
        (Inl msg, conn1) \<Rightarrow> (Inl (HTTPException 500 msg), close (rollback conn1))
      | (Inr _, conn1) \<Rightarrow>
          (Inr \<lparr>success = True, message = ''Case updated successfully''\<rparr>,
           close (commit conn1))))"

text \<open>\<^verbatim>\<open>UPDATE cases SET status = :1 WHERE case_id = :2\<close>\<close>

definition update_cases_set_status :: "string \<Rightarrow> int \<Rightarrow> nat statement" where
  "update_cases_set_status st cid s =
     (Inr (length (filter (\<lambda>c. case_id c = cid) (cases s))),
      s\<lparr>cases := map (\<lambda>c. if case_id c = cid then c\<lparr>status := bind_str st\<rparr> else c) (cases s)\<rparr>)"

text \<open>\<^verbatim>\<open>update_case_status\<close>; the argument is \<^verbatim>\<open>status_data.status\<close>.\<close>

definition update_case_status ::
  "env \<Rightarrow> store \<Rightarrow> int \<Rightarrow> string \<Rightarrow> (http_error + ok_response) \<times> store" where
  "update_case_status e s cid st =
     (case get_db_connection e s of
        Inl err \<Rightarrow> (Inl (HTTPException 500 (str_HTTPException e err)), s)
      | Inr conn \<Rightarrow>
     (case execute e 0 (update_cases_set_status st cid) conn of
        (Inl msg, conn1) \<Rightarrow> (Inl (HTTPException 500 msg), close (rollback conn1))
      | (Inr _, conn1) \<Rightarrow>
          (Inr \<lparr>success = True, message = ''Status updated successfully''\<rparr>,
           close (commit conn1))))"

subsection \<open>Search and statistics\<close>

text \<open>
  Strings are lists of 8-bit characters; \<^verbatim>\<open>UPPER\<close> maps the letters a to z to A to Z
  and leaves every other character as it is.
\<close>

definition upper_char :: "char \<Rightarrow> char" where
  "upper_char c =
     (let n = (of_char c :: nat) in if 97 \<le> n \<and> n \<le> 122 then char_of (n - 32) else c)"

definition UPPER :: "string \<Rightarrow> string" where
  "UPPER v = map upper_char v"

text \<open>
  \<^verbatim>\<open>text LIKE pattern\<close> without an \<^verbatim>\<open>ESCAPE\<close> clause: in the pattern \<^verbatim>\<open>%\<close> stands for
  any run of characters (also the empty one), \<^verbatim>\<open>_\<close> for exactly one character, and
  every other character for itself.
\<close>

fun like :: "string \<Rightarrow> string \<Rightarrow> bool" where
  "like [] v = (v = [])"
| "like (p # ps) [] = (p = CHR ''%'' \<and> like ps [])"
| "like (p # ps) (c # cs) =
     (if p = CHR ''%'' then like ps (c # cs) \<or> like (p # ps) cs
      else (p = CHR ''_'' \<or> p = c) \<and> like ps cs)"

text \<open>
  The condition \<^verbatim>\<open>UPPER(column) LIKE UPPER(:1)\<close> holds. On a NULL column it is
  unknown, and an unknown operand of \<^verbatim>\<open>OR\<close> selects nothing by itself.
\<close>

definition upper_like :: "string option \<Rightarrow> string \<Rightarrow> bool" where
  "upper_like col pat = (case col of None \<Rightarrow> False | Some v \<Rightarrow> like (UPPER pat) (UPPER v))"

text \<open>
  \<^verbatim>\<open>ORDER BY created_at DESC\<close>: later timestamps first, NULLs before all of them
  (Oracle's default for a descending key). Rows with equal keys come in an order the
  engine chooses; here they keep their table order.
\<close>

definition desc_before :: "timestamp option \<Rightarrow> timestamp option \<Rightarrow> bool" where
  "desc_before a b =
     (case a of None \<Rightarrow> True | Some x \<Rightarrow> (case b of None \<Rightarrow> False | Some y \<Rightarrow> y \<le> x))"

fun insert_desc :: "case_row \<Rightarrow> case_row list \<Rightarrow> case_row list" where
  "insert_desc r [] = [r]"
| "insert_desc r (x # xs) =
     (if desc_before (created_at r) (created_at x) then r # x # xs else x # insert_desc r xs)"

definition order_by_created_at_desc :: "case_row list \<Rightarrow> case_row list" where
  "order_by_created_at_desc rs = foldr insert_desc rs []"

text \<open>
  The seven columns that \<^verbatim>\<open>search_cases\<close> selects, which are also the seven keys of
  each dictionary it returns; the fields carry the prefix \<open>sum_\<close>.
\<close>

record case_summary =
  sum_case_id :: int
  sum_case_title :: "string option"
  sum_client_name :: "string option"
  sum_lawyer_name :: "string option"
  sum_case_type :: "string option"
  sum_status :: "string option"
  sum_created_at :: "timestamp option"

definition summary :: "case_row \<Rightarrow> case_summary" where
  "summary c =
     \<lparr>sum_case_id = case_id c, sum_case_title = case_title c,
      sum_client_name = client_name c, sum_lawyer_name = lawyer_name c,
      sum_case_type = case_type c, sum_status = status c, sum_created_at = created_at c\<rparr>"

definition search_condition :: "string \<Rightarrow> case_row \<Rightarrow> bool" where
  "search_condition pat c =
     (upper_like (case_title c) pat \<or> upper_like (client_name c) pat \<or>
      upper_like (lawyer_name c) pat \<or> upper_like (case_type c) pat)"

text \<open>\<^verbatim>\<open>SELECT case_id, ..., created_at FROM cases WHERE ... ORDER BY created_at DESC\<close>\<close>

definition select_cases_like :: "string \<Rightarrow> case_summary list statement" where
  "select_cases_like pat s =
     (Inr (map summary (order_by_created_at_desc (filter (search_condition pat) (cases s)))), s)"

text \<open>Decimal digits of a number, as Python's \<^verbatim>\<open>str\<close> prints it.\<close>

fun decimal :: "nat \<Rightarrow> string" where
  "decimal n =
     (if n < 10 then [char_of (48 + n)] else decimal (n div 10) @ [char_of (48 + n mod 10)])"

declare decimal.simps [simp del]

text \<open>
  Binding by position in python-oracledb: a SQL statement takes one value for every
  occurrence of a placeholder, also when occurrences repeat a name, and
  \<^verbatim>\<open>cursor.execute\<close> raises \<^verbatim>\<open>DPY-4009\<close> before anything is sent when the list of
  values has another length. The first argument is the number of placeholder
  occurrences in the statement text.
\<close>

definition bind_by_position :: "nat \<Rightarrow> 'a list \<Rightarrow> string option" where
  "bind_by_position placeholders vals =
     (if length vals = placeholders then None
      else Some (''DPY-4009: '' @ decimal placeholders @
                 '' positional bind values are required but '' @ decimal (length vals) @
                 '' were provided''))"

text \<open>
  \<^verbatim>\<open>search_cases\<close> (\<^verbatim>\<open>main.py\<close> only); \<open>search_query\<close> is \<^verbatim>\<open>f"%{query}%"\<close>. The statement
  text has four occurrences of \<^verbatim>\<open>:1\<close>, one for each searched column, and the handler
  passes the one-element list \<^verbatim>\<open>[search_query]\<close>. (Every other statement of the two
  entry points names each placeholder once and passes as many values.)
\<close>

definition search_cases :: "env \<Rightarrow> store \<Rightarrow> string \<Rightarrow> http_error + case_summary list" where
  "search_cases e s query =
     (case get_db_connection e s of
        Inl err \<Rightarrow> Inl (HTTPException 500 (str_HTTPException e err))
      | Inr conn \<Rightarrow>
     (let search_query = ''%'' @ query @ ''%'' in
      case bind_by_position 4 [search_query] of
        Some msg \<Rightarrow> Inl (HTTPException 500 msg)
      | None \<Rightarrow>
     (case execute e 0 (select_cases_like search_query) conn of
        (Inl msg, conn1) \<Rightarrow> Inl (HTTPException 500 msg)
      | (Inr rows, conn1) \<Rightarrow> Inr rows)))"

text \<open>\<^verbatim>\<open>SUM\<close> over no rows is NULL.\<close>

definition sql_sum :: "int list \<Rightarrow> int option" where
  "sql_sum xs = (if xs = [] then None else Some (sum_list xs))"

text \<open>Python's \<^verbatim>\<open>v or 0\<close> on a number or \<^verbatim>\<open>None\<close>.\<close>

definition or0 :: "int option \<Rightarrow> int" where
  "or0 v = (case v of None \<Rightarrow> 0 | Some n \<Rightarrow> if n = 0 then 0 else n)"

text \<open>
  \<^verbatim>\<open>SELECT COUNT(*), SUM(CASE WHEN status = 'Active' THEN 1 ELSE 0 END), ... FROM
  cases\<close>: one row of four values.
\<close>

definition status_is :: "string \<Rightarrow> case_row \<Rightarrow> int" where
  "status_is v c = (if status c = Some v then 1 else 0)"

definition select_case_stats :: "(int \<times> int option \<times> int option \<times> int option) statement" where
  "select_case_stats s =
     (Inr (int (length (cases s)),
           sql_sum (map (status_is ''Active'') (cases s)),
           sql_sum (map (status_is ''Closed'') (cases s)),
           sql_sum (map (status_is ''Pending'') (cases s))), s)"

record case_stats =
  total :: int
  active :: int
  closed :: int
  pending :: int

text \<open>\<^verbatim>\<open>get_case_stats\<close> (\<^verbatim>\<open>main.py\<close> only).\<close>

definition get_case_stats :: "env \<Rightarrow> store \<Rightarrow> http_error + case_stats" where
  "get_case_stats e s =
     (case get_db_connection e s of
        Inl err \<Rightarrow> Inl (HTTPException 500 (str_HTTPException e err))
      | Inr conn \<Rightarrow>
     (case execute e 0 select_case_stats conn of
        (Inl msg, conn1) \<Rightarrow> Inl (HTTPException 500 msg)
      | (Inr (r0, r1, r2, r3), conn1) \<Rightarrow>
          Inr \<lparr>total = or0 (Some r0), active = or0 r1, closed = or0 r2, pending = or0 r3\<rparr>))"

subsection \<open>The content hash\<close>

text \<open>
  \<^verbatim>\<open>hashlib.sha256(content).hexdigest()\<close>. The uploaded content is a byte string; the
  digest is SHA-256 as FIPS 180-4 defines it, on 32-bit words.
\<close>

type_synonym byte = "8 word"
type_synonym hash_state =
  "32 word \<times> 32 word \<times> 32 word \<times> 32 word \<times> 32 word \<times> 32 word \<times> 32 word \<times> 32 word"

definition K :: "32 word list" where
  "K = [0x428a2f98, 0x71374491, 0xb5c0fbcf, 0xe9b5dba5, 0x3956c25b, 0x59f111f1,
      0x923f82a4, 0xab1c5ed5, 0xd807aa98, 0x12835b01, 0x243185be, 0x550c7dc3,
      0x72be5d74, 0x80deb1fe, 0x9bdc06a7, 0xc19bf174, 0xe49b69c1, 0xefbe4786,
      0x0fc19dc6, 0x240ca1cc, 0x2de92c6f, 0x4a7484aa, 0x5cb0a9dc, 0x76f988da,
      0x983e5152, 0xa831c66d, 0xb00327c8, 0xbf597fc7, 0xc6e00bf3, 0xd5a79147,
      0x06ca6351, 0x14292967, 0x27b70a85, 0x2e1b2138, 0x4d2c6dfc, 0x53380d13,
      0x650a7354, 0x766a0abb, 0x81c2c92e, 0x92722c85, 0xa2bfe8a1, 0xa81a664b,
      0xc24b8b70, 0xc76c51a3, 0xd192e819, 0xd6990624, 0xf40e3585, 0x106aa070,
      0x19a4c116, 0x1e376c08, 0x2748774c, 0x34b0bcb5, 0x391c0cb3, 0x4ed8aa4a,
      0x5b9cca4f, 0x682e6ff3, 0x748f82ee, 0x78a5636f, 0x84c87814, 0x8cc70208,
      0x90befffa, 0xa4506ceb, 0xbef9a3f7, 0xc67178f2]"

definition H0 :: hash_state where
  "H0 = (0x6a09e667, 0xbb67ae85, 0x3c6ef372, 0xa54ff53a,
         0x510e527f, 0x9b05688c, 0x1f83d9ab, 0x5be0cd19)"

definition Ch :: "32 word \<Rightarrow> 32 word \<Rightarrow> 32 word \<Rightarrow> 32 word" where
  "Ch x y z = (x AND y) XOR (NOT x AND z)"

definition Maj :: "32 word \<Rightarrow> 32 word \<Rightarrow> 32 word \<Rightarrow> 32 word" where
  "Maj x y z = (x AND y) XOR (x AND z) XOR (y AND z)"

definition Sigma0 :: "32 word \<Rightarrow> 32 word" where
  "Sigma0 x = word_rotr 2 x XOR word_rotr 13 x XOR word_rotr 22 x"

definition Sigma1 :: "32 word \<Rightarrow> 32 word" where
  "Sigma1 x = word_rotr 6 x XOR word_rotr 11 x XOR word_rotr 25 x"

definition sigma0 :: "32 word \<Rightarrow> 32 word" where
  "sigma0 x = word_rotr 7 x XOR word_rotr 18 x XOR drop_bit 3 x"

definition sigma1 :: "32 word \<Rightarrow> 32 word" where
  "sigma1 x = word_rotr 17 x XOR word_rotr 19 x XOR drop_bit 10 x"

text \<open>Big-endian bytes of a word, and the word of four big-endian bytes.\<close>

definition be_bytes32 :: "32 word \<Rightarrow> byte list" where
  "be_bytes32 w = [ucast (drop_bit 24 w), ucast (drop_bit 16 w), ucast (drop_bit 8 w), ucast w]"

definition be_bytes64 :: "64 word \<Rightarrow> byte list" where
  "be_bytes64 w =
     [ucast (drop_bit 56 w), ucast (drop_bit 48 w), ucast (drop_bit 40 w), ucast (drop_bit 32 w),
      ucast (drop_bit 24 w), ucast (drop_bit 16 w), ucast (drop_bit 8 w), ucast w]"

definition be_word32 :: "byte list \<Rightarrow> 32 word" where
  "be_word32 bs = foldl (\<lambda>w b. push_bit 8 w OR ucast b) 0 bs"

text \<open>
  Padding: the byte \<open>0x80\<close>, zero bytes up to 56 modulo 64, and the length of the
  message in bits as a 64-bit big-endian number.
\<close>

definition pad :: "byte list \<Rightarrow> byte list" where
  "pad m =
     m @ [0x80] @ replicate ((119 - length m mod 64) mod 64) 0 @
     be_bytes64 (of_nat (8 * length m))"

text \<open>The message schedule of one 64-byte block: 16 words of the block, extended to 64.\<close>

definition schedule :: "byte list \<Rightarrow> 32 word list" where
  "schedule block =
     fold (\<lambda>t w. w @ [sigma1 (w ! (t - 2)) + w ! (t - 7) + sigma0 (w ! (t - 15)) + w ! (t - 16)])
       [16..<64]
       (map (\<lambda>i. be_word32 (take 4 (drop (4 * i) block))) [0..<16])"

definition sha_round :: "32 word list \<Rightarrow> nat \<Rightarrow> hash_state \<Rightarrow> hash_state" where
  "sha_round w t v =
     (case v of (a, b, c, d, e, f, g, h) \<Rightarrow>
        (let T1 = h + Sigma1 e + Ch e f g + K ! t + w ! t;
             T2 = Sigma0 a + Maj a b c
         in (T1 + T2, a, b, c, d + T1, e, f, g)))"

definition add_state :: "hash_state \<Rightarrow> hash_state \<Rightarrow> hash_state" where
  "add_state u v =
     (case u of (a, b, c, d, e, f, g, h) \<Rightarrow>
      case v of (a', b', c', d', e', f', g', h') \<Rightarrow>
        (a + a', b + b', c + c', d + d', e + e', f + f', g + g', h + h'))"

definition compress :: "hash_state \<Rightarrow> byte list \<Rightarrow> hash_state" where
  "compress hs block = add_state hs (fold (sha_round (schedule block)) [0..<64] hs)"

definition sha256 :: "byte list \<Rightarrow> byte list" where
  "sha256 m =
     (let p = pad m;
          hs = fold (\<lambda>i hs. compress hs (take 64 (drop (64 * i) p))) [0..<length p div 64] H0
      in case hs of (a, b, c, d, e, f, g, h) \<Rightarrow>
           concat (map be_bytes32 [a, b, c, d, e, f, g, h]))"

definition hex_digit :: "nat \<Rightarrow> char" where
  "hex_digit n = ''0123456789abcdef'' ! (n mod 16)"

definition hex_byte :: "byte \<Rightarrow> string" where
  "hex_byte b = [hex_digit (unat b div 16), hex_digit (unat b mod 16)]"

definition hexdigest :: "byte list \<Rightarrow> string" where
  "hexdigest m = concat (map hex_byte (sha256 m))"

subsection \<open>Uploading a document\<close>

text \<open>
  \<^verbatim>\<open>INSERT INTO documents (case_id, document_name, document_hash, document_type,
  uploaded_by) VALUES (:1, :2, :3, :4, :5)\<close>. \<^verbatim>\<open>document_hash\<close> is \<^verbatim>\<open>UNIQUE\<close> (NULLs
  apart) and \<^verbatim>\<open>case_id\<close> references \<^verbatim>\<open>cases\<close>. The identity value is drawn before the
  constraints are checked, so a refused insert still consumes it.
\<close>

definition insert_into_documents ::
  "env \<Rightarrow> int \<Rightarrow> string \<Rightarrow> string \<Rightarrow> string \<Rightarrow> string \<Rightarrow> nat statement" where
  "insert_into_documents e cid dname hash dtype uploader s =
     (let row = \<lparr>doc_id = documents_identity s,
                 doc_case_id = Some cid,
                 document_name = bind_str dname,
                 document_hash = bind_str hash,
                 document_type = bind_str dtype,
                 uploaded_by = bind_str uploader,
                 doc_blockchain_tx = None,
                 uploaded_at = Some (current_timestamp e)\<rparr>;
          s1 = s\<lparr>documents_identity := documents_identity s + 1\<rparr>
      in if document_hash row \<noteq> None \<and>
            list_ex (\<lambda>d. document_hash d = document_hash row) (documents s)
         then (Inl ''ORA-00001: unique constraint violated'', s1)
         else if \<not> list_ex (\<lambda>c. case_id c = cid) (cases s)
         then (Inl ''ORA-02291: integrity constraint violated - parent key not found'', s1)
         else (Inr 1, s1\<lparr>documents := documents s @ [row]\<rparr>))"

record upload_response = ok_response +
  resp_document_hash :: string

text \<open>
  \<^verbatim>\<open>upload_document\<close> (\<^verbatim>\<open>main.py\<close> only); \<open>content\<close> is what \<^verbatim>\<open>await file.read()\<close>
  returned.
\<close>

definition upload_document ::
  "env \<Rightarrow> store \<Rightarrow> int \<Rightarrow> string \<Rightarrow> string \<Rightarrow> string \<Rightarrow> byte list \<Rightarrow>
   (http_error + upload_response) \<times> store" where
  "upload_document e s cid dname dtype uploader content =
     (let hash = hexdigest content in
      case get_db_connection e s of
        Inl err \<Rightarrow> (Inl (HTTPException 500 (str_HTTPException e err)), s)
      | Inr conn \<Rightarrow>
     (case execute e 0 (insert_into_documents e cid dname hash dtype uploader) conn of
        (Inl msg, conn1) \<Rightarrow> (Inl (HTTPException 500 msg), close (rollback conn1))
      | (Inr _, conn1) \<Rightarrow>
          (Inr \<lparr>success = True, message = ''Document uploaded successfully'',
                resp_document_hash = hash\<rparr>,
           close (commit conn1))))"

subsection \<open>The search contract in the words of the specification\<close>

text \<open>
  The query is a case-insensitive substring of a column: the upper-cased query occurs
  as a contiguous run in the upper-cased column text. A NULL column has no text.
\<close>

definition contains_ci :: "string \<Rightarrow> string option \<Rightarrow> bool" where
  "contains_ci q col = (case col of None \<Rightarrow> False | Some v \<Rightarrow> sublist (UPPER q) (UPPER v))"

definition spec_search_match :: "string \<Rightarrow> case_row \<Rightarrow> bool" where
  "spec_search_match q c =
     (contains_ci q (case_title c) \<or> contains_ci q (client_name c) \<or>
      contains_ci q (lawyer_name c) \<or> contains_ci q (case_type c))"

text \<open>A query without the two \<^verbatim>\<open>LIKE\<close> wildcards.\<close>

definition wildcard_free :: "string \<Rightarrow> bool" where
  "wildcard_free q = list_all (\<lambda>c. c \<noteq> CHR ''%'' \<and> c \<noteq> CHR ''_'') q"

subsection \<open>Concrete surroundings and stores\<close>

text \<open>A request during which the driver raises nothing.\<close>

definition env_ok :: env where
  "env_ok = \<lparr>connect_error = None, execute_error = (\<lambda>k. None), current_timestamp = 100,
             str_HTTPException = detail\<rparr>"

text \<open>A request whose third statement loses the connection.\<close>

definition env_fault2 :: env where
  "env_fault2 =
     \<lparr>connect_error = None,
      execute_error =
        (\<lambda>k. if k = 2 then Some ''ORA-03113: end-of-file on communication channel'' else None),
      current_timestamp = 100, str_HTTPException = detail\<rparr>"

definition case1 :: case_row where
  "case1 =
     \<lparr>case_id = 1, case_title = Some ''Estate of Doe'', client_name = Some ''John Smith'',
      client_email = Some ''john@example.org'', client_address = Some ''1 Main St'',
      lawyer_name = Some ''Ann Lee'', lawyer_email = Some ''ann@example.org'',
      case_type = Some ''Civil'', description = Some ''Probate'', client_wallet = Some ''0xC1'',
      lawyer_wallet = Some ''0xL1'', blockchain_tx = None, status = Some ''Active'',
      created_at = Some 10\<rparr>"

definition doc1 :: document_row where
  "doc1 =
     \<lparr>doc_id = 1, doc_case_id = Some 1, document_name = Some ''will.pdf'',
      document_hash = Some ''ab'', document_type = Some ''pdf'', uploaded_by = Some ''Ann Lee'',
      doc_blockchain_tx = None, uploaded_at = Some 11\<rparr>"

definition hearing1 :: hearing_row where
  "hearing1 =
     \<lparr>hearing_id = 1, hearing_case_id = Some 1, hearing_date = Some 20000,
      hearing_time = Some ''10:00'', court_name = Some ''High Court'', hearing_notes = None,
      hearing_created_at = Some 12\<rparr>"

text \<open>One case with one document and one hearing.\<close>

definition store1 :: store where
  "store1 =
     \<lparr>cases = [case1], documents = [doc1], hearings = [hearing1],
      cases_identity = 2, documents_identity = 2, hearings_identity = 2\<rparr>"

text \<open>
  Three cases for the search: one whose client is John Smith, one whose lawyer is Jane
  SMITH, one that mentions Smith in its description only.
\<close>

definition case2 :: case_row where
  "case2 = case1\<lparr>case_id := 2, client_name := Some ''Mary Major'',
                 lawyer_name := Some ''Jane SMITH'', created_at := Some 20\<rparr>"

definition case3 :: case_row where
  "case3 = case1\<lparr>case_id := 3, client_name := Some ''Mary Major'',
                 description := Some ''Smith v. Jones'', created_at := Some 30\<rparr>"

definition store_search :: store where
  "store_search =
     \<lparr>cases = [case1, case2, case3], documents = [], hearings = [],
      cases_identity = 4, documents_identity = 1, hearings_identity = 1\<rparr>"

text \<open>Five cases with the statuses Active, Active, Closed, Pending, Archived.\<close>

definition store_stats :: store where
  "store_stats =
     \<lparr>cases = [case1, case1\<lparr>case_id := 2\<rparr>, case1\<lparr>case_id := 3, status := Some ''Closed''\<rparr>,
               case1\<lparr>case_id := 4, status := Some ''Pending''\<rparr>,
               case1\<lparr>case_id := 5, status := Some ''Archived''\<rparr>],
      documents = [], hearings = [],
      cases_identity = 6, documents_identity = 1, hearings_identity = 1\<rparr>"

definition update1 :: CaseUpdate where
  "update1 =
     \<lparr>upd_case_title = ''Estate of Roe'', upd_client_name = ''Jane Roe'',
      upd_client_email = ''jane@example.org'', upd_client_address = ''2 High St'',
      upd_lawyer_name = ''Bo Chen'', upd_lawyer_email = ''bo@example.org'',
      upd_case_type = ''Family'', upd_description = ''''\<rparr>"

definition create1 :: CaseCreate where
  "create1 =
     \<lparr>new_case_title = ''Roe v. Wade Ltd'', new_client_name = ''Jane Roe'',
      new_client_email = ''jane@example.org'', new_client_address = ''2 High St'',
      new_lawyer_name = ''Bo Chen'', new_lawyer_email = ''bo@example.org'',
      new_case_type = ''Family'', new_description = ''Custody'',
      new_client_wallet = ''0xC2'', new_lawyer_wallet = ''0xL2''\<rparr>"

text \<open>The three bytes of \<^verbatim>\<open>b"abc"\<close>.\<close>

definition abc :: "byte list" where
  "abc = [0x61, 0x62, 0x63]"

text \<open>
  The message schedule of the single padded block of \<open>abc\<close>, and the working
  variables after every eighth round of its compression.
\<close>

definition abc_schedule :: "32 word list" where
  "abc_schedule =
     [0x61626380, 0x00000000, 0x00000000, 0x00000000, 0x00000000, 0x00000000,
      0x00000000, 0x00000000, 0x00000000, 0x00000000, 0x00000000, 0x00000000,
      0x00000000, 0x00000000, 0x00000000, 0x00000018, 0x61626380, 0x000f0000,
      0x7da86405, 0x600003c6, 0x3e9d7b78, 0x0183fc00, 0x12dcbfdb, 0xe2e2c38e,
      0xc8215c1a, 0xb73679a2, 0xe5bc3909, 0x32663c5b, 0x9d209d67, 0xec8726cb,
      0x702138a4, 0xd3b7973b, 0x93f5997f, 0x3b68ba73, 0xaff4ffc1, 0xf10a5c62,
      0x0a8b3996, 0x72af830a, 0x9409e33e, 0x24641522, 0x9f47bf94, 0xf0a64f5a,
      0x3e246a79, 0x27333ba3, 0x0c4763f2, 0x840abf27, 0x7a290d5d, 0x065c43da,
      0xfb3e89cb, 0xcc7617db, 0xb9e66c34, 0xa9993667, 0x84badedd, 0xc21462bc,
      0x1487472c, 0xb20f7a99, 0xef57b9cd, 0xebe6b238, 0x9fe3095e, 0x78bc8d4b,
      0xa43fcf15, 0x668b2ff8, 0xeeaba2cc, 0x12b1edeb]"

definition abc_rounds :: "hash_state list" where
  "abc_rounds =
     [(0x6a09e667, 0xbb67ae85, 0x3c6ef372, 0xa54ff53a,
      0x510e527f, 0x9b05688c, 0x1f83d9ab, 0x5be0cd19),
      (0x85a07b5f, 0xe5030380, 0x2b4209f5, 0x04409a6a,
      0x0c657a79, 0x9b27a401, 0x714260ad, 0x43ada245),
      (0xb0fa238e, 0xc0645fde, 0xd932eb16, 0x87912990,
      0x07590dcd, 0x0b92f20c, 0x745a48de, 0x1e578218),
      (0xc5d53d8d, 0xa7a3623f, 0xc2606d6d, 0x9dc68b63,
      0xaa47c347, 0x49f5114a, 0xe1257970, 0x8ada8930),
      (0x73b33bf5, 0xea992a22, 0xa0060b30, 0x363482c9,
      0xba591112, 0x0109ab3a, 0xade79437, 0x6112a3b7),
      (0x79ea687a, 0x6dc57a8a, 0x34df1604, 0x41a65cb1,
      0x1efbc0a0, 0xf0781bc8, 0xa507a53d, 0x0772a26b),
      (0x4172328d, 0xa14c14b0, 0x72ab4b91, 0x26628815,
      0xfecf0bc6, 0xd57b94a9, 0xb7755da1, 0xa80f11f0),
      (0x38cc9913, 0x3ec45cdb, 0xf5702fdb, 0x101fd28f,
      0x54cb266b, 0xe50e1b4f, 0x9f4787c3, 0x529e7d00),
      (0x506e3058, 0xd39a2165, 0x04d24d6c, 0xb85e2ce9,
      0x5ef50f24, 0xfb121210, 0x948d25b6, 0x961f4894)]"

section \<open>Properties\<close>

subsection \<open>Transactions\<close>

lemma close_commit: "close (commit c) = current c"
  by (simp add: close_def commit_def rollback_def)

lemma list_ex_filter_neg: "list_ex P (filter (\<lambda>x. \<not> P x) xs) = False"
  by (simp add: list_ex_iff)

lemmas driver_defs = get_db_connection_def execute_def
lemmas example_defs = env_ok_def env_fault2_def store1_def case1_def doc1_def hearing1_def

subsection \<open>Cascade delete\<close>

text \<open>
  C1, as amended. When the driver raises nothing, \<^verbatim>\<open>delete_case\<close> of \<^verbatim>\<open>main.py\<close>
  succeeds on every store and removes the hearing rows of the case, its document rows
  and the case row; every other row stays. \<^verbatim>\<open>delete_case\<close> of \<^verbatim>\<open>app.py\<close> has no
  statement on hearings: when no hearing row references the case it removes the
  document rows and the case row, and the hearings table is as before.
\<close>

theorem delete_case_cascade:
  assumes "connect_error e = None" and "execute_error e 0 = None"
    and "execute_error e 1 = None" and "execute_error e 2 = None"
  shows "delete_case e s cid =
           (Inr \<lparr>success = True, message = ''Case deleted successfully''\<rparr>,
            s\<lparr>hearings := filter (\<lambda>h. hearing_case_id h \<noteq> Some cid) (hearings s),
              documents := filter (\<lambda>d. doc_case_id d \<noteq> Some cid) (documents s),
              cases := filter (\<lambda>c. case_id c \<noteq> cid) (cases s)\<rparr>) \<and>
         (\<not> list_ex (\<lambda>h. hearing_case_id h = Some cid) (hearings s) \<longrightarrow>
            app_delete_case e s cid =
              (Inr \<lparr>success = True, message = ''Case deleted successfully''\<rparr>,
               s\<lparr>documents := filter (\<lambda>d. doc_case_id d \<noteq> Some cid) (documents s),
                 cases := filter (\<lambda>c. case_id c \<noteq> cid) (cases s)\<rparr>))"
  using assms
  by (simp add: delete_case_def app_delete_case_def driver_defs
      delete_from_hearings_def delete_from_documents_def delete_from_cases_def referenced_def
      list_ex_filter_neg close_commit)

theorem delete_case_cascade_witness:
  "delete_case env_ok store1 1 =
     (Inr \<lparr>success = True, message = ''Case deleted successfully''\<rparr>,
      store1\<lparr>hearings := [], documents := [], cases := []\<rparr>) \<and>
   app_delete_case env_ok (store1\<lparr>hearings := []\<rparr>) 1 =
     (Inr \<lparr>success = True, message = ''Case deleted successfully''\<rparr>,
      store1\<lparr>hearings := [], documents := [], cases := []\<rparr>)"
proof -
  have ok: "connect_error env_ok = None" "execute_error env_ok 0 = None"
    "execute_error env_ok 1 = None" "execute_error env_ok 2 = None"
    by (simp_all add: env_ok_def)
  show ?thesis
    using delete_case_cascade[OF ok, of store1 1]
      delete_case_cascade[OF ok, of "store1\<lparr>hearings := []\<rparr>" 1]
    by (simp add: example_defs)
qed

text \<open>
  C1 as stated fails for \<^verbatim>\<open>app.py\<close>: on a store where case 1 has a hearing, its
  \<^verbatim>\<open>delete_case\<close> removes no hearing row; the request ends in the foreign-key error
  and the store is as before.
\<close>

theorem app_delete_case_keeps_hearings:
  "app_delete_case env_ok store1 1 =
     (Inl (HTTPException 500 ''ORA-02292: integrity constraint violated - child record found''),
      store1) \<and>
   hearings store1 = [hearing1] \<and> hearing_case_id hearing1 = Some 1"
  by (simp add: app_delete_case_def driver_defs example_defs
      delete_from_documents_def delete_from_cases_def referenced_def close_def rollback_def)

text \<open>
  C2. The cascade delete is all-or-nothing in both entry points: a request that ends
  in an error leaves the store exactly as it found it, and a driver error on any of
  its statements makes the request end in an error.
\<close>

theorem delete_case_all_or_nothing:
  "(isl (fst (delete_case e s cid)) \<longrightarrow> snd (delete_case e s cid) = s) \<and>
   (isl (fst (app_delete_case e s cid)) \<longrightarrow> snd (app_delete_case e s cid) = s) \<and>
   (k < 3 \<and> execute_error e k \<noteq> None \<longrightarrow> isl (fst (delete_case e s cid))) \<and>
   (k < 2 \<and> execute_error e k \<noteq> None \<longrightarrow> isl (fst (app_delete_case e s cid)))"
proof -
  have k3: "k < 3 \<Longrightarrow> k = 0 \<or> k = 1 \<or> k = 2" and k2: "k < 2 \<Longrightarrow> k = 0 \<or> k = 1"
    by arith+
  have "isl (fst (delete_case e s cid)) \<longrightarrow> snd (delete_case e s cid) = s"
    by (auto simp: delete_case_def driver_defs delete_from_hearings_def
        delete_from_documents_def delete_from_cases_def close_def rollback_def
        split: option.splits if_splits)
  moreover have "isl (fst (app_delete_case e s cid)) \<longrightarrow> snd (app_delete_case e s cid) = s"
    by (auto simp: app_delete_case_def driver_defs delete_from_documents_def
        delete_from_cases_def close_def rollback_def split: option.splits if_splits)
  moreover have "k < 3 \<and> execute_error e k \<noteq> None \<longrightarrow> isl (fst (delete_case e s cid))"
    using k3
    by (auto simp: delete_case_def driver_defs delete_from_hearings_def
        delete_from_documents_def delete_from_cases_def split: option.splits if_splits)
  moreover have "k < 2 \<and> execute_error e k \<noteq> None \<longrightarrow> isl (fst (app_delete_case e s cid))"
    using k2
    by (auto simp: app_delete_case_def driver_defs delete_from_documents_def
        delete_from_cases_def split: option.splits if_splits)
  ultimately show ?thesis by blast
qed

theorem delete_case_all_or_nothing_witness:
  "(2::nat) < 3 \<and> execute_error env_fault2 2 \<noteq> None \<and>
   delete_case env_fault2 store1 1 =
     (Inl (HTTPException 500 ''ORA-03113: end-of-file on communication channel''), store1) \<and>
   isl (fst (app_delete_case env_ok store1 1)) \<and> snd (app_delete_case env_ok store1 1) = store1"
proof -
  have f: "(2::nat) < 3 \<and> execute_error env_fault2 2 \<noteq> None"
    by (simp add: env_fault2_def)
  have a: "isl (fst (app_delete_case env_ok store1 1))"
    by (simp add: app_delete_case_def driver_defs example_defs
        delete_from_documents_def delete_from_cases_def referenced_def)
  have m: "fst (delete_case env_fault2 store1 1) =
             Inl (HTTPException 500 ''ORA-03113: end-of-file on communication channel'')"
    by (simp add: delete_case_def driver_defs example_defs
        delete_from_hearings_def delete_from_documents_def)
  have "snd (delete_case env_fault2 store1 1) = store1"
    using delete_case_all_or_nothing[of env_fault2 store1 1 2] f by blast
  moreover have "snd (app_delete_case env_ok store1 1) = store1"
    using delete_case_all_or_nothing[of env_ok store1 1 0] a by blast
  ultimately show ?thesis using f a m by (simp add: prod_eq_iff)
qed

subsection \<open>The content hash\<close>

lemma length_be_bytes32: "length (be_bytes32 w) = 4"
  by (simp add: be_bytes32_def)

lemma length_sha256: "length (sha256 m) = 32"
  by (simp add: sha256_def Let_def length_be_bytes32 split: prod.splits)

lemma length_hex_bytes: "length (concat (map hex_byte bs)) = 2 * length bs"
  by (induction bs) (simp_all add: hex_byte_def)

lemma hex_digit_range: "hex_digit n \<in> set ''0123456789abcdef''"
  unfolding hex_digit_def by (rule nth_mem) simp

lemma hex_bytes_range: "list_all (\<lambda>c. c \<in> set ''0123456789abcdef'') (concat (map hex_byte bs))"
  using hex_digit_range by (induction bs) (simp_all add: hex_byte_def del: set_simps)

lemma length_hexdigest: "length (hexdigest m) = 64"
  by (simp add: hexdigest_def length_hex_bytes length_sha256)

lemma bind_hexdigest: "bind_str (hexdigest m) = Some (hexdigest m)"
  using length_hexdigest[of m] by (auto simp: bind_str_def)

text \<open>The digest of \<open>abc\<close>, computed round by round.\<close>

lemma fold_upt_split:
  "a \<le> b \<Longrightarrow> b \<le> c \<Longrightarrow> fold f [a..<c] v = fold f [b..<c] (fold f [a..<b] v)"
  using upt_add_eq_append[of a b "c - b"] by simp

lemma abc_pad: "length (pad abc) = 64"
  by (simp add: pad_def abc_def be_bytes64_def)

lemma abc_schedule: "schedule (pad abc) = abc_schedule"
  by code_simp

lemma abc_rounds_0: "fold (sha_round abc_schedule) [0..<8] (abc_rounds ! 0) = abc_rounds ! 1"
  by code_simp

lemma abc_rounds_1: "fold (sha_round abc_schedule) [8..<16] (abc_rounds ! 1) = abc_rounds ! 2"
  by code_simp

lemma abc_rounds_2: "fold (sha_round abc_schedule) [16..<24] (abc_rounds ! 2) = abc_rounds ! 3"
  by code_simp

lemma abc_rounds_3: "fold (sha_round abc_schedule) [24..<32] (abc_rounds ! 3) = abc_rounds ! 4"
  by code_simp

lemma abc_rounds_4: "fold (sha_round abc_schedule) [32..<40] (abc_rounds ! 4) = abc_rounds ! 5"
  by code_simp

lemma abc_rounds_5: "fold (sha_round abc_schedule) [40..<48] (abc_rounds ! 5) = abc_rounds ! 6"
  by code_simp

lemma abc_rounds_6: "fold (sha_round abc_schedule) [48..<56] (abc_rounds ! 6) = abc_rounds ! 7"
  by code_simp

lemma abc_rounds_7: "fold (sha_round abc_schedule) [56..<64] (abc_rounds ! 7) = abc_rounds ! 8"
  by code_simp

lemma abc_rounds_H0: "abc_rounds ! 0 = H0"
  by code_simp

lemma abc_rounds_all: "fold (sha_round abc_schedule) [0..<64] H0 = abc_rounds ! 8"
proof -
  have "fold (sha_round abc_schedule) [0..<64] (abc_rounds ! 0) = abc_rounds ! 8"
    by (simp only: fold_upt_split[of 0 56 64] fold_upt_split[of 0 48 56]
        fold_upt_split[of 0 40 48] fold_upt_split[of 0 32 40] fold_upt_split[of 0 24 32]
        fold_upt_split[of 0 16 24] fold_upt_split[of 0 8 16]
        abc_rounds_0 abc_rounds_1 abc_rounds_2 abc_rounds_3 abc_rounds_4 abc_rounds_5
        abc_rounds_6 abc_rounds_7)
  then show ?thesis by (simp only: abc_rounds_H0)
qed

lemma abc_digest:
  "(case add_state H0 (abc_rounds ! 8) of (a, b, c, d, e, f, g, h) \<Rightarrow>
      concat (map hex_byte (concat (map be_bytes32 [a, b, c, d, e, f, g, h])))) =
   ''ba7816bf8f01cfea414140de5dae2223b00361a396177a9cb410ff61f20015ad''"
  by code_simp

lemma hexdigest_abc:
  "hexdigest abc = ''ba7816bf8f01cfea414140de5dae2223b00361a396177a9cb410ff61f20015ad''"
proof -
  have blocks: "[0..<length (pad abc) div 64] = [0]"
    by (simp add: abc_pad)
  have block: "take 64 (drop (64 * 0) (pad abc)) = pad abc"
    by (simp add: abc_pad)
  have "sha256 abc =
          (case add_state H0 (abc_rounds ! 8) of (a, b, c, d, e, f, g, h) \<Rightarrow>
             concat (map be_bytes32 [a, b, c, d, e, f, g, h]))"
    unfolding sha256_def Let_def blocks
    by (simp only: fold.simps id_apply comp_apply block compress_def abc_schedule abc_rounds_all)
  then show ?thesis
    using abc_digest by (simp add: hexdigest_def split: prod.splits)
qed

text \<open>
  C3. The content hash is a function of the bytes alone: equal contents have equal
  digests. The SHA-256 value has 32 bytes (256 bits), and the digest is its rendering
  with two characters per byte: 64 characters, each one of \<^verbatim>\<open>0123456789abcdef\<close>.
\<close>

theorem hexdigest_shape:
  "(m1 = m2 \<longrightarrow> hexdigest m1 = hexdigest m2) \<and>
   length (sha256 m) = 32 \<and>
   hexdigest m = concat (map hex_byte (sha256 m)) \<and>
   length (hexdigest m) = 64 \<and>
   list_all (\<lambda>c. c \<in> set ''0123456789abcdef'') (hexdigest m)"
  using hex_bytes_range[of "sha256 m"]
  by (simp add: length_sha256 length_hexdigest) (simp add: hexdigest_def)

theorem hexdigest_shape_witness:
  "hexdigest [0x61, 0x62, 0x63] = hexdigest abc \<and>
   hexdigest abc = ''ba7816bf8f01cfea414140de5dae2223b00361a396177a9cb410ff61f20015ad'' \<and>
   length (sha256 abc) = 32 \<and> length (hexdigest abc) = 64 \<and>
   list_all (\<lambda>c. c \<in> set ''0123456789abcdef'') (hexdigest abc)"
proof -
  have same: "[0x61, 0x62, 0x63] = abc"
    by (simp add: abc_def)
  from hexdigest_shape[of "[0x61, 0x62, 0x63]" abc abc] same hexdigest_abc show ?thesis
    by blast
qed

subsection \<open>Uploading the same content twice\<close>

lemma upload_Inr:
  assumes "upload_document e s cid dn dt up content = (Inr r, s')"
  shows "\<not> list_ex (\<lambda>d. document_hash d = Some (hexdigest content)) (documents s) \<and>
         (\<exists>row. documents s' = documents s @ [row] \<and>
                document_hash row = Some (hexdigest content))"
  using assms
  by (auto simp: upload_document_def driver_defs insert_into_documents_def
      close_commit Let_def bind_hexdigest split: option.splits if_splits)

lemma upload_duplicate:
  assumes "list_ex (\<lambda>d. document_hash d = Some (hexdigest content)) (documents s)"
  shows "isl (fst (upload_document e s cid dn dt up content)) \<and>
         documents (snd (upload_document e s cid dn dt up content)) = documents s"
  using assms
  by (auto simp: upload_document_def driver_defs insert_into_documents_def
      close_def rollback_def Let_def bind_hexdigest split: option.splits)

text \<open>
  C4. An upload whose content hash some stored document already carries fails,
  whatever case, name, type and uploader it names and whatever the driver does, and
  leaves the documents table as it was. In particular, after an upload of some content
  has succeeded, a second upload of the same content fails and exactly one document
  row carries that hash.
\<close>

theorem duplicate_upload_fails:
  "(list_ex (\<lambda>d. document_hash d = Some (hexdigest content)) (documents s) \<longrightarrow>
      isl (fst (upload_document e s cid dn dt up content)) \<and>
      documents (snd (upload_document e s cid dn dt up content)) = documents s) \<and>
   (upload_document e1 s0 cid1 dn1 dt1 up1 content = (Inr r, s) \<longrightarrow>
      isl (fst (upload_document e s cid dn dt up content)) \<and>
      length (filter (\<lambda>d. document_hash d = Some (hexdigest content))
                (documents (snd (upload_document e s cid dn dt up content)))) = 1)"
proof (intro conjI impI)
  assume "list_ex (\<lambda>d. document_hash d = Some (hexdigest content)) (documents s)"
  then show "isl (fst (upload_document e s cid dn dt up content))"
    and "documents (snd (upload_document e s cid dn dt up content)) = documents s"
    using upload_duplicate by blast+
next
  assume first: "upload_document e1 s0 cid1 dn1 dt1 up1 content = (Inr r, s)"
  from upload_Inr[OF first] obtain row where
    fresh: "\<not> list_ex (\<lambda>d. document_hash d = Some (hexdigest content)) (documents s0)"
    and docs: "documents s = documents s0 @ [row]"
    and row: "document_hash row = Some (hexdigest content)" by blast
  have ex: "list_ex (\<lambda>d. document_hash d = Some (hexdigest content)) (documents s)"
    using docs row by (simp add: list_ex_iff)
  have none: "filter (\<lambda>d. document_hash d = Some (hexdigest content)) (documents s0) = []"
    using fresh by (simp add: list_ex_iff filter_empty_conv)
  have one: "length (filter (\<lambda>d. document_hash d = Some (hexdigest content)) (documents s)) = 1"
    using docs row none by simp
  show "isl (fst (upload_document e s cid dn dt up content))"
    using upload_duplicate[OF ex] by blast
  show "length (filter (\<lambda>d. document_hash d = Some (hexdigest content))
                  (documents (snd (upload_document e s cid dn dt up content)))) = 1"
    using upload_duplicate[OF ex] one by simp
qed

theorem duplicate_upload_fails_witness:
  "upload_document env_ok store_search 1 ''will.pdf'' ''pdf'' ''Ann Lee'' abc =
     (Inr \<lparr>success = True, message = ''Document uploaded successfully'',
           resp_document_hash = hexdigest abc\<rparr>,
      snd (upload_document env_ok store_search 1 ''will.pdf'' ''pdf'' ''Ann Lee'' abc)) \<and>
   isl (fst (upload_document env_ok
          (snd (upload_document env_ok store_search 1 ''will.pdf'' ''pdf'' ''Ann Lee'' abc))
          2 ''copy.pdf'' ''pdf'' ''Bo Chen'' abc)) \<and>
   length (filter (\<lambda>d. document_hash d = Some (hexdigest abc))
     (documents (snd (upload_document env_ok
          (snd (upload_document env_ok store_search 1 ''will.pdf'' ''pdf'' ''Ann Lee'' abc))
          2 ''copy.pdf'' ''pdf'' ''Bo Chen'' abc)))) = 1"
proof -
  have first: "upload_document env_ok store_search 1 ''will.pdf'' ''pdf'' ''Ann Lee'' abc =
     (Inr \<lparr>success = True, message = ''Document uploaded successfully'',
           resp_document_hash = hexdigest abc\<rparr>,
      snd (upload_document env_ok store_search 1 ''will.pdf'' ''pdf'' ''Ann Lee'' abc))"
    by (simp add: upload_document_def driver_defs insert_into_documents_def close_commit
        Let_def bind_hexdigest env_ok_def store_search_def case1_def)
  from first duplicate_upload_fails[of abc
      "snd (upload_document env_ok store_search 1 ''will.pdf'' ''pdf'' ''Ann Lee'' abc)"
      env_ok 2 "''copy.pdf''" "''pdf''" "''Bo Chen''" env_ok store_search 1 "''will.pdf''"
      "''pdf''" "''Ann Lee''"]
  show ?thesis
    by blast
qed

subsection \<open>Fetching and updating a case\<close>

lemma find_distinct_id:
  "distinct (map case_id cs) \<Longrightarrow> r \<in> set cs \<Longrightarrow>
   find (\<lambda>c. case_id c = case_id r) cs = Some r"
  by (induction cs) (auto simp: image_iff)

lemma find_absent:
  "\<not> list_ex (\<lambda>c. case_id c = cid) cs \<Longrightarrow> find (\<lambda>c. case_id c = cid) cs = None"
  by (induction cs) auto

text \<open>
  C5. When the driver raises nothing, fetching an identifier that no case row carries
  fails with status 404 and the detail \<^verbatim>\<open>Case not found\<close>, in both entry points; fetching
  the identifier of a stored case (identifiers being unique, as the primary key
  makes them) returns that row with all its columns.
\<close>

theorem get_case_not_found:
  assumes "connect_error e = None" and "execute_error e 0 = None"
  shows "(\<not> list_ex (\<lambda>c. case_id c = cid) (cases s) \<longrightarrow>
            get_case e s cid = Inl (HTTPException 404 ''Case not found'') \<and>
            app_get_case e s cid = Inl (HTTPException 404 ''Case not found'')) \<and>
         (distinct (map case_id (cases s)) \<and> r \<in> set (cases s) \<and> case_id r = cid \<longrightarrow>
            get_case e s cid = Inr r \<and> app_get_case e s cid = Inr r)"
  using assms find_distinct_id[of "cases s" r] find_absent[of cid "cases s"]
  by (auto simp: get_case_def app_get_case_def driver_defs select_case_def)

theorem get_case_not_found_witness:
  "get_case env_ok store_search 7 = Inl (HTTPException 404 ''Case not found'') \<and>
   app_get_case env_ok store_search 7 = Inl (HTTPException 404 ''Case not found'') \<and>
   get_case env_ok store_search 2 = Inr case2 \<and> app_get_case env_ok store_search 2 = Inr case2"
proof -
  have ok: "connect_error env_ok = None" "execute_error env_ok 0 = None"
    by (simp_all add: env_ok_def)
  have absent: "\<not> list_ex (\<lambda>c. case_id c = 7) (cases store_search)"
    by (simp add: store_search_def case1_def case2_def case3_def)
  have present: "distinct (map case_id (cases store_search)) \<and> case2 \<in> set (cases store_search)
      \<and> case_id case2 = 2"
    by (simp add: store_search_def case1_def case2_def case3_def)
  show ?thesis
    using get_case_not_found[OF ok, of 7 store_search case2]
      get_case_not_found[OF ok, of 2 store_search case2] absent present
    by blast
qed

lemma map_upd_absent:
  "\<not> list_ex (\<lambda>c. case_id c = cid) cs \<Longrightarrow>
   map (\<lambda>c. if case_id c = cid then f c else c) cs = cs"
  by (induction cs) auto

text \<open>
  C6. When the driver raises nothing, \<^verbatim>\<open>update_case\<close> and \<^verbatim>\<open>update_case_status\<close> on an
  identifier that no case row carries report success; no row changes. Neither reads
  the row count the statement leaves in the cursor.
\<close>

theorem update_missing_case_succeeds:
  assumes "connect_error e = None" and "execute_error e 0 = None"
    and "\<not> list_ex (\<lambda>c. case_id c = cid) (cases s)"
  shows "update_case e s cid u =
           (Inr \<lparr>success = True, message = ''Case updated successfully''\<rparr>, s) \<and>
         update_case_status e s cid st =
           (Inr \<lparr>success = True, message = ''Status updated successfully''\<rparr>, s)"
  using assms
  by (simp add: update_case_def update_case_status_def driver_defs
      update_cases_set_fields_def update_cases_set_status_def close_commit map_upd_absent)

theorem update_missing_case_succeeds_witness:
  "update_case env_ok store1 7 update1 =
     (Inr \<lparr>success = True, message = ''Case updated successfully''\<rparr>, store1) \<and>
   update_case_status env_ok store1 7 ''Closed'' =
     (Inr \<lparr>success = True, message = ''Status updated successfully''\<rparr>, store1)"
proof -
  have ok: "connect_error env_ok = None" "execute_error env_ok 0 = None"
    by (simp_all add: env_ok_def)
  have absent: "\<not> list_ex (\<lambda>c. case_id c = 7) (cases store1)"
    by (simp add: store1_def case1_def)
  show ?thesis
    using update_missing_case_succeeds[OF ok absent, of update1 "''Closed''"] by simp
qed

lemma update_case_Inr:
  "update_case e s cid u = (Inr r, s') \<Longrightarrow>
   s' = s\<lparr>cases := map (\<lambda>c. if case_id c = cid then set_case_fields u c else c) (cases s)\<rparr>"
  by (auto simp: update_case_def driver_defs update_cases_set_fields_def
      close_commit split: option.splits)

text \<open>
  C7. A full update that succeeds leaves documents and hearings alone and keeps every
  case row in its place. A row with another identifier is unchanged. In a row with
  the given identifier the eight mutable columns hold the bound request values, and
  status, wallets, transaction reference, identifier and creation timestamp are as
  before.
\<close>

theorem update_case_frame:
  assumes "update_case e s cid u = (Inr r, s')"
  shows "documents s' = documents s \<and> hearings s' = hearings s \<and>
         length (cases s') = length (cases s) \<and>
         (\<forall>i < length (cases s).
            (case_id (cases s ! i) \<noteq> cid \<longrightarrow> cases s' ! i = cases s ! i) \<and>
            (case_id (cases s ! i) = cid \<longrightarrow>
               case_title (cases s' ! i) = bind_str (upd_case_title u) \<and>
               client_name (cases s' ! i) = bind_str (upd_client_name u) \<and>
               client_email (cases s' ! i) = bind_str (upd_client_email u) \<and>
               client_address (cases s' ! i) = bind_str (upd_client_address u) \<and>
               lawyer_name (cases s' ! i) = bind_str (upd_lawyer_name u) \<and>
               lawyer_email (cases s' ! i) = bind_str (upd_lawyer_email u) \<and>
               case_type (cases s' ! i) = bind_str (upd_case_type u) \<and>
               description (cases s' ! i) = bind_str (upd_description u) \<and>
               status (cases s' ! i) = status (cases s ! i) \<and>
               client_wallet (cases s' ! i) = client_wallet (cases s ! i) \<and>
               lawyer_wallet (cases s' ! i) = lawyer_wallet (cases s ! i) \<and>
               blockchain_tx (cases s' ! i) = blockchain_tx (cases s ! i) \<and>
               case_id (cases s' ! i) = case_id (cases s ! i) \<and>
               created_at (cases s' ! i) = created_at (cases s ! i)))"
  using update_case_Inr[OF assms] by (simp add: set_case_fields_def)

theorem update_case_frame_witness:
  "update_case env_ok store_search 2 update1 =
     (Inr \<lparr>success = True, message = ''Case updated successfully''\<rparr>,
      store_search\<lparr>cases :=
        [case1,
         case2\<lparr>case_title := Some ''Estate of Roe'', client_name := Some ''Jane Roe'',
               client_email := Some ''jane@example.org'', client_address := Some ''2 High St'',
               lawyer_name := Some ''Bo Chen'', lawyer_email := Some ''bo@example.org'',
               case_type := Some ''Family'', description := None\<rparr>,
         case3]\<rparr>) \<and>
   status (cases (snd (update_case env_ok store_search 2 update1)) ! 1) = status case2 \<and>
   cases (snd (update_case env_ok store_search 2 update1)) ! 0 = case1 \<and>
   cases (snd (update_case env_ok store_search 2 update1)) ! 2 = case3"
proof -
  have run: "update_case env_ok store_search 2 update1 =
     (Inr \<lparr>success = True, message = ''Case updated successfully''\<rparr>,
      store_search\<lparr>cases :=
        [case1,
         case2\<lparr>case_title := Some ''Estate of Roe'', client_name := Some ''Jane Roe'',
               client_email := Some ''jane@example.org'', client_address := Some ''2 High St'',
               lawyer_name := Some ''Bo Chen'', lawyer_email := Some ''bo@example.org'',
               case_type := Some ''Family'', description := None\<rparr>,
         case3]\<rparr>)"
    by (simp add: update_case_def driver_defs update_cases_set_fields_def close_commit
        set_case_fields_def bind_str_def env_ok_def store_search_def case1_def case2_def
        case3_def update1_def)
  have again: "update_case env_ok store_search 2 update1 =
     (Inr \<lparr>success = True, message = ''Case updated successfully''\<rparr>,
      snd (update_case env_ok store_search 2 update1))"
    using run by simp
  have ids: "case_id (cases store_search ! 0) \<noteq> 2" "case_id (cases store_search ! 1) = 2"
    "case_id (cases store_search ! 2) \<noteq> 2" "0 < length (cases store_search)"
    "1 < length (cases store_search)" "2 < length (cases store_search)"
    "cases store_search ! 0 = case1" "cases store_search ! 1 = case2"
    "cases store_search ! 2 = case3"
    by (simp_all add: store_search_def case1_def case2_def case3_def)
  from update_case_frame[OF again] ids run show ?thesis
    by simp
qed

subsection \<open>Statistics\<close>

lemma sum_status_is:
  "sum_list (map (status_is v) cs) = int (length (filter (\<lambda>c. status c = Some v) cs))"
  by (induction cs) (simp_all add: status_is_def)

lemma or0_sql_sum:
  "or0 (sql_sum (map (status_is v) cs)) = int (length (filter (\<lambda>c. status c = Some v) cs))"
  by (simp add: or0_def sql_sum_def sum_status_is)

text \<open>
  C8. When the driver raises nothing, \<^verbatim>\<open>get_case_stats\<close> returns the number of case
  rows as \<open>total\<close> and, as \<open>active\<close>, \<open>closed\<close> and \<open>pending\<close>, the number of rows whose
  status is exactly \<^verbatim>\<open>Active\<close>, \<^verbatim>\<open>Closed\<close> and \<^verbatim>\<open>Pending\<close>. A row with any other status
  counts in \<open>total\<close> only.
\<close>

theorem get_case_stats_counts:
  assumes "connect_error e = None" and "execute_error e 0 = None"
  shows "get_case_stats e s =
           Inr \<lparr>total = int (length (cases s)),
                active = int (length (filter (\<lambda>c. status c = Some ''Active'') (cases s))),
                closed = int (length (filter (\<lambda>c. status c = Some ''Closed'') (cases s))),
                pending = int (length (filter (\<lambda>c. status c = Some ''Pending'') (cases s)))\<rparr>"
  using assms
  by (simp add: get_case_stats_def driver_defs select_case_stats_def or0_sql_sum)
     (simp add: or0_def)

theorem get_case_stats_counts_witness:
  "map status (cases store_stats) =
     [Some ''Active'', Some ''Active'', Some ''Closed'', Some ''Pending'', Some ''Archived''] \<and>
   get_case_stats env_ok store_stats = Inr \<lparr>total = 5, active = 2, closed = 1, pending = 1\<rparr>"
proof -
  have ok: "connect_error env_ok = None" "execute_error env_ok 0 = None"
    by (simp_all add: env_ok_def)
  show ?thesis
    using get_case_stats_counts[OF ok, of store_stats]
    by (simp add: store_stats_def case1_def)
qed

subsection \<open>Search\<close>

lemma like_percent: "like [CHR ''%''] v"
  by (induction v) simp_all

lemma like_literal:
  "wildcard_free q \<Longrightarrow> like (q @ ps) v \<longleftrightarrow> (\<exists>rest. v = q @ rest \<and> like ps rest)"
proof (induction q arbitrary: v)
  case Nil
  then show ?case by simp
next
  case (Cons a q)
  then have wf: "wildcard_free q" and a: "a \<noteq> CHR ''%''" "a \<noteq> CHR ''_''"
    by (simp_all add: wildcard_free_def)
  show ?case
  proof (cases v)
    case Nil
    then show ?thesis using a by simp
  next
    case (Cons c cs)
    then show ?thesis using a Cons.IH[OF wf, of cs] by auto
  qed
qed

lemma like_any_prefix:
  "like (CHR ''%'' # ps) v \<longleftrightarrow> (\<exists>pre post. v = pre @ post \<and> like ps post)"
proof (induction v)
  case Nil
  then show ?case by simp
next
  case (Cons c cs)
  have "like (CHR ''%'' # ps) (c # cs) \<longleftrightarrow> like ps (c # cs) \<or> like (CHR ''%'' # ps) cs"
    by simp
  also have "\<dots> \<longleftrightarrow> like ps (c # cs) \<or> (\<exists>pre post. cs = pre @ post \<and> like ps post)"
    using Cons.IH by simp
  also have "\<dots> \<longleftrightarrow> (\<exists>pre post. c # cs = pre @ post \<and> like ps post)"
    by (auto simp: Cons_eq_append_conv)
  finally show ?case .
qed

lemma like_contains:
  assumes "wildcard_free q"
  shows "like (CHR ''%'' # q @ [CHR ''%'']) v \<longleftrightarrow> sublist q v"
  by (simp add: like_any_prefix like_literal[OF assms] like_percent sublist_def) blast

lemma upper_char_wild:
  "upper_char c = CHR ''%'' \<longleftrightarrow> c = CHR ''%''" "upper_char c = CHR ''_'' \<longleftrightarrow> c = CHR ''_''"
proof -
  have *: "upper_char c = c \<or> (97 \<le> (of_char c :: nat) \<and> (of_char c :: nat) \<le> 122 \<and>
           (of_char (upper_char c) :: nat) = of_char c - 32)"
    by (auto simp: upper_char_def Let_def)
  have p: "(of_char (CHR ''%'') :: nat) = 37" and u: "(of_char (CHR ''_'') :: nat) = 95"
    by simp_all
  show "upper_char c = CHR ''%'' \<longleftrightarrow> c = CHR ''%''"
    using * p by (auto simp: upper_char_def Let_def)
  show "upper_char c = CHR ''_'' \<longleftrightarrow> c = CHR ''_''"
    using * u by (auto simp: upper_char_def Let_def)
qed

lemma wildcard_free_UPPER: "wildcard_free q \<Longrightarrow> wildcard_free (UPPER q)"
  by (induction q) (simp_all add: wildcard_free_def UPPER_def upper_char_wild)

lemma UPPER_pattern: "UPPER (CHR ''%'' # q @ [CHR ''%'']) = CHR ''%'' # UPPER q @ [CHR ''%'']"
  using upper_char_wild(1)[of "CHR ''%''"] by (simp add: UPPER_def)

lemma upper_like_contains:
  "wildcard_free q \<Longrightarrow> upper_like col (CHR ''%'' # q @ [CHR ''%'']) = contains_ci q col"
  by (simp add: upper_like_def contains_ci_def UPPER_pattern like_contains wildcard_free_UPPER
      split: option.splits)

lemma search_condition_spec:
  "wildcard_free q \<Longrightarrow> search_condition (CHR ''%'' # q @ [CHR ''%'']) = spec_search_match q"
  by (rule ext) (simp add: search_condition_def spec_search_match_def upper_like_contains)

lemma mset_insert_desc: "mset (insert_desc r xs) = add_mset r (mset xs)"
  by (induction xs) simp_all

lemma mset_order_by: "mset (order_by_created_at_desc rs) = mset rs"
  by (induction rs) (simp_all add: order_by_created_at_desc_def mset_insert_desc)

lemma desc_before_total: "\<not> desc_before a b \<Longrightarrow> desc_before b a"
  by (auto simp: desc_before_def split: option.splits)

lemma desc_before_trans: "desc_before a b \<Longrightarrow> desc_before b c \<Longrightarrow> desc_before a c"
  by (auto simp: desc_before_def split: option.splits)

lemma set_insert_desc: "set (insert_desc r xs) = insert r (set xs)"
  by (induction xs) auto

lemma sorted_insert_desc:
  "sorted_wrt (\<lambda>a b. desc_before (created_at a) (created_at b)) xs \<Longrightarrow>
   sorted_wrt (\<lambda>a b. desc_before (created_at a) (created_at b)) (insert_desc r xs)"
proof (induction xs)
  case Nil
  then show ?case by simp
next
  case (Cons x xs)
  show ?case
  proof (cases "desc_before (created_at r) (created_at x)")
    case True
    then show ?thesis using Cons.prems by (auto intro: desc_before_trans)
  next
    case False
    then have "desc_before (created_at x) (created_at r)" by (rule desc_before_total)
    then show ?thesis using False Cons by (auto simp: set_insert_desc)
  qed
qed

lemma sorted_order_by:
  "sorted_wrt (\<lambda>a b. desc_before (created_at a) (created_at b)) (order_by_created_at_desc rs)"
  by (induction rs) (simp_all add: order_by_created_at_desc_def sorted_insert_desc)

text \<open>
  What the \<^verbatim>\<open>SELECT\<close> of \<^verbatim>\<open>search_cases\<close> computes when it runs with the pattern
  \<^verbatim>\<open>%query%\<close> in each of its four places: for a query with neither \<^verbatim>\<open>%\<close> nor \<^verbatim>\<open>_\<close>,
  the summaries of exactly the case rows in which the query is a case-insensitive
  substring of the title, the client name, the lawyer name or the case type, ordered
  by creation timestamp descending. A query with a wildcard selects more.
\<close>

lemma select_cases_like_substring:
  assumes "wildcard_free q"
  shows "\<exists>res. select_cases_like (CHR ''%'' # q @ [CHR ''%'']) s = (Inr res, s) \<and>
           mset res = mset (map summary (filter (spec_search_match q) (cases s))) \<and>
           sorted_wrt (\<lambda>a b. desc_before (sum_created_at a) (sum_created_at b)) res"
proof -
  let ?rows = "order_by_created_at_desc (filter (spec_search_match q) (cases s))"
  have "select_cases_like (CHR ''%'' # q @ [CHR ''%'']) s = (Inr (map summary ?rows), s)"
    using search_condition_spec[OF assms] by (simp add: select_cases_like_def)
  moreover have
    "mset (map summary ?rows) = mset (map summary (filter (spec_search_match q) (cases s)))"
    by (simp add: mset_order_by)
  moreover have
    "sorted_wrt (\<lambda>a b. desc_before (sum_created_at a) (sum_created_at b)) (map summary ?rows)"
    using sorted_order_by[of "filter (spec_search_match q) (cases s)"]
    by (simp add: sorted_wrt_map summary_def)
  ultimately show ?thesis by blast
qed

lemma select_cases_like_wildcard:
  "select_cases_like ''%Jo_n%'' store_search = (Inr [summary case1], store_search) \<and>
   filter (spec_search_match ''Jo_n'') (cases store_search) = []"
  by code_simp

lemma bind_four_one:
  "bind_by_position 4 [v] =
     Some ''DPY-4009: 4 positional bind values are required but 1 were provided''"
  by (simp add: bind_by_position_def decimal.simps) code_simp

lemma search_cases_connected:
  "connect_error e = None \<Longrightarrow>
   search_cases e s q =
     Inl (HTTPException 500
            ''DPY-4009: 4 positional bind values are required but 1 were provided'')"
  by (simp add: search_cases_def get_db_connection_def bind_four_one)

text \<open>
  C9. The search the claim describes is never run: \<^verbatim>\<open>search_cases\<close> ends in an error
  for every query, on every store and whatever the driver does, because its
  statement gets one bind value for four placeholders. On the store with the clients
  and lawyers named Smith the query \<^verbatim>\<open>Smith\<close> is a substring of a searched column of
  cases 1 and 2, and the handler answers with status 500.
\<close>

theorem search_cases_bind_error:
  "isl (search_cases e s q) \<and>
   search_cases env_ok store_search ''Smith'' =
     Inl (HTTPException 500
            ''DPY-4009: 4 positional bind values are required but 1 were provided'') \<and>
   filter (spec_search_match ''Smith'') (cases store_search) = [case1, case2]"
proof -
  have "isl (search_cases e s q)"
    by (simp add: search_cases_def get_db_connection_def bind_four_one split: option.splits)
  moreover have "search_cases env_ok store_search ''Smith'' =
     Inl (HTTPException 500
            ''DPY-4009: 4 positional bind values are required but 1 were provided'')"
    by (rule search_cases_connected) (simp add: env_ok_def)
  moreover have "filter (spec_search_match ''Smith'') (cases store_search) = [case1, case2]"
    by code_simp
  ultimately show ?thesis by blast
qed

subsection \<open>Creating a case\<close>

text \<open>
  C10. A create request that succeeds appends one case row: its identifier is the one
  the response reports, its status is \<^verbatim>\<open>Active\<close> and its transaction reference is
  NULL. The request body \<open>CaseCreate\<close> has no field for either.
\<close>

theorem create_case_defaults:
  assumes "create_case e s c = (Inr r, s')"
  shows "cases s' = cases s @ [last (cases s')] \<and>
         case_id (last (cases s')) = resp_case_id r \<and>
         status (last (cases s')) = Some ''Active'' \<and>
         blockchain_tx (last (cases s')) = None \<and>
         documents s' = documents s \<and> hearings s' = hearings s"
  using assms
  by (auto simp: create_case_def driver_defs insert_into_cases_def
      close_commit Let_def split: option.splits)

theorem create_case_defaults_witness:
  "create_case env_ok store1 create1 =
     (Inr \<lparr>success = True, message = ''Case created successfully'', resp_case_id = 2\<rparr>,
      snd (create_case env_ok store1 create1)) \<and>
   length (cases (snd (create_case env_ok store1 create1))) = 2 \<and>
   case_id (last (cases (snd (create_case env_ok store1 create1)))) = 2 \<and>
   status (last (cases (snd (create_case env_ok store1 create1)))) = Some ''Active'' \<and>
   blockchain_tx (last (cases (snd (create_case env_ok store1 create1)))) = None"
proof -
  have run: "create_case env_ok store1 create1 =
     (Inr \<lparr>success = True, message = ''Case created successfully'', resp_case_id = 2\<rparr>,
      snd (create_case env_ok store1 create1))"
    by (simp add: create_case_def driver_defs insert_into_cases_def close_commit Let_def
        env_ok_def store1_def)
  have len: "length (cases (snd (create_case env_ok store1 create1))) = 2"
    by (simp add: create_case_def driver_defs insert_into_cases_def close_commit Let_def
        env_ok_def store1_def)
  from create_case_defaults[OF run] run len show ?thesis
    by simp
qed

end
